theory Spec2Isabelle
  imports Complex_Main "HOL-Library.Multiset"
begin

section \<open>JavaScript strings\<close>

text \<open>
  A JavaScript string is a sequence of UTF-16 code units. The model uses \<^typ>\<open>string\<close>,
  whose characters are the code units below 256 (the Latin-1 range); on that range the
  tables of ECMAScript for white space, line terminators, case conversion and the
  canonicalisation of case-insensitive regular expressions are written out below.
  JavaScript numbers that are quotients of small integers are modelled as rationals.
\<close>

definition isWhiteSpace :: "char \<Rightarrow> bool" where
  \<comment> \<open>WhiteSpace and LineTerminator of ECMAScript: what \<open>trim\<close> strips and \<open>\s\<close> matches.\<close>
  "isWhiteSpace c =
     (c = CHR 0x09 \<or> c = CHR 0x0A \<or> c = CHR 0x0B \<or> c = CHR 0x0C \<or> c = CHR 0x0D
      \<or> c = CHR 0x20 \<or> c = CHR 0xA0)"

definition isLineTerminator :: "char \<Rightarrow> bool" where
  "isLineTerminator c = (c = CHR 0x0A \<or> c = CHR 0x0D)"

definition isDigit :: "char \<Rightarrow> bool" where
  "isDigit c = (48 \<le> (of_char c :: nat) \<and> (of_char c :: nat) \<le> 57)"

definition isWordChar :: "char \<Rightarrow> bool" where
  \<comment> \<open>The word characters of \<open>\b\<close>: letters, digits and the underscore.\<close>
  "isWordChar c =
     (let n = (of_char c :: nat)
      in (65 \<le> n \<and> n \<le> 90) \<or> (97 \<le> n \<and> n \<le> 122) \<or> (48 \<le> n \<and> n \<le> 57) \<or> n = 95)"

definition toLowerChar :: "char \<Rightarrow> char" where
  \<comment> \<open>A-Z and the Latin-1 capitals (0xC0-0xDE without the multiplication sign 0xD7).\<close>
  "toLowerChar c =
     (let n = (of_char c :: nat)
      in if (65 \<le> n \<and> n \<le> 90) \<or> (192 \<le> n \<and> n \<le> 222 \<and> n \<noteq> 215)
         then char_of (n + 32) else c)"

definition toLowerCase :: "string \<Rightarrow> string" where
  "toLowerCase s = map toLowerChar s"

definition canonicalize :: "bool \<Rightarrow> char \<Rightarrow> char" where
  \<comment> \<open>Canonicalize of a regular expression without the unicode flag: with ignoreCase the
      upper-case form, when that is one code unit; the upper-case forms of 0xB5, 0xDF and
      0xFF are not Latin-1 characters and are not shared with any other character, so
      these three stay as they are.\<close>
  "canonicalize ignoreCase c =
     (let n = (of_char c :: nat)
      in if ignoreCase \<and> ((97 \<le> n \<and> n \<le> 122) \<or> (224 \<le> n \<and> n \<le> 254 \<and> n \<noteq> 247))
         then char_of (n - 32) else c)"

definition trim :: "string \<Rightarrow> string" where
  "trim s = rev (dropWhile isWhiteSpace (rev (dropWhile isWhiteSpace s)))"

fun startsWith :: "string \<Rightarrow> string \<Rightarrow> bool" where
  "startsWith s [] = True"
| "startsWith [] (t # ts) = False"
| "startsWith (c # cs) (t # ts) = (c = t \<and> startsWith cs ts)"

fun includesStr :: "string \<Rightarrow> string \<Rightarrow> bool" where
  \<comment> \<open>\<open>s.includes(t)\<close>: \<open>t\<close> occurs in \<open>s\<close> as a substring.\<close>
  "includesStr [] t = (t = [])"
| "includesStr (c # cs) t = (startsWith (c # cs) t \<or> includesStr cs t)"

definition join :: "string \<Rightarrow> string list \<Rightarrow> string" where
  \<comment> \<open>\<open>xs.join(sep)\<close>\<close>
  "join sep xs = (case xs of [] \<Rightarrow> [] | y # ys \<Rightarrow> y @ concat (map (\<lambda>z. sep @ z) ys))"

function natToString :: "nat \<Rightarrow> string" where
  \<comment> \<open>The decimal text of a non-negative integer, as a template literal prints it.\<close>
  "natToString n =
     (if n < 10 then [char_of (48 + n)] else natToString (n div 10) @ [char_of (48 + n mod 10)])"
  by pat_completeness auto
termination
  by (relation "measure id") auto

declare natToString.simps [simp del]

section \<open>Regular expressions\<close>

text \<open>
  The fragment of ECMAScript regular expressions the service uses, with the backtracking
  semantics of the language: a matcher returns every way the pattern matches at the
  current position, in the order in which backtracking tries them, so the head of the
  list is the match the engine reports. One capturing group is enough for this program.
\<close>

datatype regex =
    Chr char
  | Dot
  | Digit
  | Space
  | OneOf "char list"
  | WordBoundary
  | Empty
  | Seq regex regex
  | Alt regex regex
  | Star regex
  | Group regex

record MatchState =
  prevChar :: "char option"
  remaining :: string
  capture1 :: "string option"

definition startState :: "string \<Rightarrow> MatchState" where
  "startState s = \<lparr>prevChar = None, remaining = s, capture1 = None\<rparr>"

definition advance :: "MatchState \<Rightarrow> MatchState" where
  "advance st =
     (case remaining st of [] \<Rightarrow> st
      | c # cs \<Rightarrow> st\<lparr>prevChar := Some c, remaining := cs\<rparr>)"

definition charStep :: "(char \<Rightarrow> bool) \<Rightarrow> MatchState \<Rightarrow> MatchState list" where
  "charStep P st =
     (case remaining st of [] \<Rightarrow> []
      | c # cs \<Rightarrow> if P c then [advance st] else [])"

definition atWordBoundary :: "MatchState \<Rightarrow> bool" where
  "atWordBoundary st =
     (let a = (case prevChar st of None \<Rightarrow> False | Some c \<Rightarrow> isWordChar c);
          b = (case remaining st of [] \<Rightarrow> False | c # cs \<Rightarrow> isWordChar c)
      in a \<noteq> b)"

definition consumed :: "MatchState \<Rightarrow> MatchState \<Rightarrow> string" where
  \<comment> \<open>the text between two states of one match\<close>
  "consumed st st' = take (length (remaining st) - length (remaining st')) (remaining st)"

function run :: "bool \<Rightarrow> regex \<Rightarrow> MatchState \<Rightarrow> MatchState list" where
  "run ic (Chr a) st = charStep (\<lambda>c. canonicalize ic c = canonicalize ic a) st"
| "run ic Dot st = charStep (\<lambda>c. \<not> isLineTerminator c) st"
| "run ic Digit st = charStep isDigit st"
| "run ic Space st = charStep isWhiteSpace st"
| "run ic (OneOf cs) st =
     charStep (\<lambda>c. canonicalize ic c \<in> set (map (canonicalize ic) cs)) st"
| "run ic WordBoundary st = (if atWordBoundary st then [st] else [])"
| "run ic Empty st = [st]"
| "run ic (Seq a b) st = concat (map (\<lambda>st'. run ic b st') (run ic a st))"
| "run ic (Alt a b) st = run ic a st @ run ic b st"
| "run ic (Star a) st =
     concat (map (\<lambda>st'. if length (remaining st') < length (remaining st)
                          then run ic (Star a) st' else [])
                 (run ic a st)) @ [st]"
| "run ic (Group a) st =
     map (\<lambda>st'. st'\<lparr>capture1 := Some (consumed st st')\<rparr>) (run ic a st)"
  by pat_completeness auto
termination
  by (relation "inv_image (less_than <*lex*> less_than)
                  (\<lambda>(ic, r, st). (size r, length (remaining st)))") auto

definition Plus :: "regex \<Rightarrow> regex" where
  "Plus r = Seq r (Star r)"

definition Opt :: "regex \<Rightarrow> regex" where
  "Opt r = Alt r Empty"

fun Seqs :: "regex list \<Rightarrow> regex" where
  "Seqs [] = Empty"
| "Seqs [r] = r"
| "Seqs (r # rs) = Seq r (Seqs rs)"

fun Alts :: "regex list \<Rightarrow> regex" where
  "Alts [] = Empty"
| "Alts [r] = r"
| "Alts (r # rs) = Alt r (Alts rs)"

definition Lit :: "string \<Rightarrow> regex" where
  "Lit s = Seqs (map Chr s)"

lemma charStep_length:
  "st' \<in> set (charStep P st) \<Longrightarrow> length (remaining st') < length (remaining st)"
  by (auto simp: charStep_def advance_def split: list.splits if_splits)

declare run.simps(10) [simp del]

lemma run_Star_mem:
  "st' \<in> set (run ic (Star a) st) \<Longrightarrow>
     st' = st \<or> (\<exists>m \<in> set (run ic a st).
        length (remaining m) < length (remaining st) \<and> st' \<in> set (run ic (Star a) m))"
  by (subst (asm) run.simps(10)) (auto split: if_splits)

lemma run_length_le:
  "st' \<in> set (run ic r st) \<Longrightarrow> length (remaining st') \<le> length (remaining st)"
proof (induction ic r st arbitrary: st' rule: run.induct)
  case (8 ic a b st)
  then obtain m where m: "m \<in> set (run ic a st)" and st': "st' \<in> set (run ic b m)"
    by auto
  from "8.IH"(1)[OF m] "8.IH"(2)[OF m st'] show ?case by simp
next
  case (10 ic a st)
  from run_Star_mem[OF "10.prems"] show ?case
  proof
    assume "st' = st"
    then show ?thesis by simp
  next
    assume "\<exists>m \<in> set (run ic a st).
        length (remaining m) < length (remaining st) \<and> st' \<in> set (run ic (Star a) m)"
    then obtain m where m: "m \<in> set (run ic a st)"
      and lt: "length (remaining m) < length (remaining st)"
      and st': "st' \<in> set (run ic (Star a) m)"
      by blast
    from "10.IH"(2)[OF m lt st'] lt show ?thesis by simp
  qed
next
  case (9 ic a b st)
  then show ?case by auto
next
  case (11 ic a st)
  then show ?case by auto
qed (auto dest: charStep_length split: if_splits)

lemma run_head_length:
  "run ic r st = m # ms \<Longrightarrow> length (remaining m) \<le> length (remaining st)"
  using run_length_le [of m ic r st] by simp

subsection \<open>exec, test, match and split\<close>

text \<open>
  \<open>search\<close> is the loop of \<open>RegExp.prototype.exec\<close> for a pattern that is not sticky: the
  match is tried at the current position, then one character further, up to and including
  the end of the input. It returns the state where the match starts and the one where it
  ends.
\<close>

function search :: "bool \<Rightarrow> regex \<Rightarrow> MatchState \<Rightarrow> (MatchState \<times> MatchState) option" where
  "search ic r st =
     (case run ic r st of
        m # ms \<Rightarrow> Some (st, m)
      | [] \<Rightarrow> (case remaining st of [] \<Rightarrow> None | c # cs \<Rightarrow> search ic r (advance st)))"
  by pat_completeness auto
termination
  by (relation "measure (\<lambda>(ic, r, st). length (remaining st))") (auto simp: advance_def)

definition test :: "bool \<Rightarrow> regex \<Rightarrow> string \<Rightarrow> bool" where
  \<comment> \<open>\<open>pattern.test(s)\<close> of a pattern without the global flag\<close>
  "test ic r s = (search ic r (startState s) \<noteq> None)"

definition matchFirst :: "bool \<Rightarrow> regex \<Rightarrow> string \<Rightarrow> (string \<times> string option) option" where
  \<comment> \<open>\<open>s.match(pattern)\<close> without the global flag: the matched text and group 1, or null\<close>
  "matchFirst ic r s =
     (case search ic r (startState s) of
        None \<Rightarrow> None
      | Some (st, m) \<Rightarrow> Some (consumed st m, capture1 m))"

declare search.simps [simp del]

lemma search_length:
  "search ic r st = Some (st0, m) \<Longrightarrow>
     length (remaining m) \<le> length (remaining st0) \<and> length (remaining st0) \<le> length (remaining st)"
proof (induction ic r st rule: search.induct)
  case (1 ic r st)
  show ?case
  proof (cases "run ic r st")
    case Nil
    with "1.prems" obtain c cs where cs: "remaining st = c # cs"
      and rec: "search ic r (advance st) = Some (st0, m)"
      by (subst (asm) search.simps) (auto split: list.splits)
    from "1.IH"[OF Nil cs rec] cs show ?thesis by (simp add: advance_def)
  next
    case (Cons m' ms)
    with "1.prems" have "st0 = st" "m = m'"
      by (subst (asm) search.simps, simp)+
    with Cons show ?thesis using run_head_length by auto
  qed
qed

text \<open>
  \<open>matchAllFrom\<close> is the loop of \<open>s.match(pattern)\<close> with the global flag: every match from
  left to right, the next search starting where the last match ended, or one character
  further after an empty match.
\<close>

function matchAllFrom :: "bool \<Rightarrow> regex \<Rightarrow> MatchState \<Rightarrow> string list" where
  "matchAllFrom ic r st =
     (case search ic r st of
        None \<Rightarrow> []
      | Some (st0, m) \<Rightarrow>
          consumed st0 m #
            (if length (remaining m) < length (remaining st0) then matchAllFrom ic r m
             else (case remaining m of [] \<Rightarrow> [] | c # cs \<Rightarrow> matchAllFrom ic r (advance m))))"
  by pat_completeness auto
termination matchAllFrom
  by (relation "measure (\<lambda>(ic, r, st). length (remaining st))")
     (auto simp: advance_def dest!: search_length)

declare matchAllFrom.simps [simp del]

definition matchAll :: "bool \<Rightarrow> regex \<Rightarrow> string \<Rightarrow> string list option" where
  \<comment> \<open>\<open>s.match(pattern)\<close> with the global flag: null when nothing matches\<close>
  "matchAll ic r s =
     (case matchAllFrom ic r (startState s) of [] \<Rightarrow> None | m # ms \<Rightarrow> Some (m # ms))"

text \<open>
  \<open>splitLoop\<close> is the loop of \<open>s.split(pattern)\<close>: \<open>piece\<close> is the text between the end
  \<open>p\<close> of the last separator and the current position \<open>q\<close>. The pattern is tried at \<open>q\<close>
  only; a match that ends at \<open>p\<close> is skipped. The patterns of this program have no
  capturing group, so a split adds nothing but the pieces.
\<close>

function splitLoop :: "bool \<Rightarrow> regex \<Rightarrow> string \<Rightarrow> MatchState \<Rightarrow> string list" where
  "splitLoop ic r piece st =
     (case remaining st of
        [] \<Rightarrow> [piece]
      | c # cs \<Rightarrow>
          (case run ic r st of
             [] \<Rightarrow> splitLoop ic r (piece @ [c]) (advance st)
           | m # ms \<Rightarrow>
               if piece = [] \<and> \<not> length (remaining m) < length (remaining st)
               then splitLoop ic r (piece @ [c]) (advance st)
               else piece # splitLoop ic r [] m))"
  by pat_completeness auto
termination splitLoop
  by (relation "measure (\<lambda>(ic, r, piece, st).
                  2 * length (remaining st) + (if piece = [] then 0 else 1))")
     (auto simp: advance_def dest!: run_head_length)

declare splitLoop.simps [simp del]

definition split :: "bool \<Rightarrow> regex \<Rightarrow> string \<Rightarrow> string list" where
  \<comment> \<open>\<open>s.split(pattern)\<close>: the empty string gives no piece when the pattern matches it,
      and itself otherwise\<close>
  "split ic r s =
     (if s = [] then (if run ic r (startState s) = [] then [s] else [])
      else splitLoop ic r [] (startState s))"

section \<open>ChatService\<close>

subsection \<open>Data\<close>

text \<open>
  Modelled from the spec: the types \<open>ChatIntent\<close>, \<open>IntentClassificationResult\<close>,
  \<open>EvidenceSource\<close> and \<open>ChatContext\<close> are declared in \<open>@/types/chat\<close>, which is not
  among the sources; their fields are those the spec lists and the service reads and writes.
\<close>

datatype ChatIntent =
    resume_detail_inquiry
  | evaluation_challenge
  | candidate_comparison
  | skill_verification
  | experience_analysis
  | ambiguity_check
  | unknown

record IntentClassificationResult =
  intent :: ChatIntent
  confidence :: rat
  entities :: "string \<rightharpoonup> string"

record EvidenceSource =
  type :: string
  content :: string
  relevanceScore :: rat
  location :: string

text \<open>
  A value a JavaScript \<open>throw\<close> raises: an instance of \<open>Error\<close> with its message, or
  any other value.
\<close>

datatype thrown = ErrorInstance string | NonError

subsection \<open>extractEntities\<close>

definition techVocabulary :: "string list" where
  "techVocabulary =
     [''JavaScript'', ''Python'', ''React'', ''Node.js'', ''AWS'', ''Azure'', ''Docker'',
      ''Kubernetes'', ''SQL'', ''MongoDB'', ''Git'', ''Java'', ''C++'', ''HTML'', ''CSS'',
      ''API'', ''REST'', ''GraphQL'', ''TypeScript'', ''Vue'', ''Angular'', ''PHP'', ''Ruby'',
      ''Go'', ''Rust'', ''Swift'', ''Kotlin'', ''Android'', ''iOS'', ''Linux'', ''Windows'',
      ''macOS'', ''Jenkins'', ''CI/CD'', ''DevOps'', ''Agile'', ''Scrum'',
      ''Machine Learning'', ''AI'', ''Data Science'', ''Analytics'', ''Cloud'', ''Database'',
      ''Security'', ''Testing'', ''QA'', ''UI/UX'', ''Design'', ''Marketing'', ''Sales'',
      ''Management'', ''Leadership'', ''Communication'', ''Project Management'',
      ''Certification'', ''Degree'', ''Bachelor'', ''Master'', ''PhD'', ''PMP'',
      ''Scrum Master'', ''AWS Certified'', ''Microsoft Certified'']"

definition techPattern :: regex where
  \<comment> \<open>\<open>/\b(?:JavaScript|Python|...|Microsoft Certified)\b/gi\<close>\<close>
  "techPattern = Seqs [WordBoundary, Alts (map Lit techVocabulary), WordBoundary]"

definition experiencePattern :: regex where
  \<comment> \<open>\<open>/(\d+)\s*(?:years?|yrs?)\s*(?:of\s*)?(?:experience|exp)/i\<close>\<close>
  "experiencePattern =
     Seqs [Group (Plus Digit), Star Space,
           Alt (Seq (Lit ''year'') (Opt (Chr CHR ''s''))) (Seq (Lit ''yr'') (Opt (Chr CHR ''s''))),
           Star Space,
           Opt (Seq (Lit ''of'') (Star Space)),
           Alt (Lit ''experience'') (Lit ''exp'')]"

definition extractEntities :: "string \<Rightarrow> (string \<rightharpoonup> string)" where
  "extractEntities query =
     (let entities = Map.empty;
          techTerms = matchAll True techPattern query;
          entities = (case techTerms of
                        None \<Rightarrow> entities
                      | Some ts \<Rightarrow> entities(''technologies'' \<mapsto> join '', '' ts));
          experienceMatch = matchFirst True experiencePattern query;
          entities = (case experienceMatch of
                        None \<Rightarrow> entities
                      | Some (whole, None) \<Rightarrow> entities
                      | Some (whole, Some g1) \<Rightarrow> entities(''experience_years'' \<mapsto> g1))
      in entities)"

subsection \<open>classifyIntent\<close>

definition intentPatterns :: "(ChatIntent \<times> regex list) list" where
  \<comment> \<open>the entries of the table in the order \<open>Object.entries\<close> lists them: as declared\<close>
  "intentPatterns =
     [(resume_detail_inquiry,
         [Alts [Lit ''did they mention'', Lit ''do they have'',
                Seqs [Lit ''where'', Star Dot, Lit ''show''],
                Seqs [Lit ''what'', Star Dot, Lit ''experience'']],
          Alts [Lit ''background in'', Lit ''skilled in'', Lit ''familiar with'']]),
      (evaluation_challenge,
         [Alts [Seqs [Lit ''why'', Star Dot, Lit ''qualified''],
                Seqs [Lit ''why'', Star Dot, Lit ''score''],
                Seqs [Lit ''why'', Star Dot, Lit ''ranked''],
                Seqs [Lit ''what'', Star Dot, Lit ''wrong'']],
          Alts [Seqs [Lit ''reason'', Star Dot, Lit ''failed''],
                Seqs [Lit ''explanation'', Star Dot, Lit ''tier'']]]),
      (candidate_comparison,
         [Alts [Lit ''stronger than'', Lit ''better than'',
                Seqs [Lit ''compare'', Star Dot, Lit ''to''],
                Lit ''versus'', Lit ''vs.''],
          Alts [Seqs [Lit ''who'', Star Dot, Lit ''better''],
                Seqs [Lit ''which'', Star Dot, Lit ''candidate'']]]),
      (skill_verification,
         [Alts [Seqs [Lit ''where'', Star Dot, Lit ''leadership''],
                Seqs [Lit ''demonstrate'', Star Dot, Lit ''skills''],
                Seqs [Lit ''show'', Star Dot, Lit ''ability'']],
          Alts [Seqs [Lit ''evidence'', Star Dot, Lit ''of''],
                Seqs [Lit ''proof'', Star Dot, Lit ''of'']]]),
      (experience_analysis,
         [Alts [Seqs [Lit ''years'', Star Dot, Lit ''experience''],
                Lit ''how long'',
                Seqs [Lit ''duration'', Star Dot, Lit ''work'']],
          Alts [Seqs [Lit ''career'', Star Dot, Lit ''length''],
                Seqs [Lit ''time'', Star Dot, Lit ''in'']]]),
      (ambiguity_check,
         [Alts [Lit ''justified'', Lit ''reasonable'',
                Seqs [Lit ''fair'', Star Dot, Lit ''assessment''],
                Lit ''accurate''],
          Alts [Seqs [Lit ''should'', Star Dot, Lit ''be'', Star Dot, Lit ''higher''],
                Seqs [Lit ''seems'', Star Dot, Lit ''low'']]]),
      (unknown, [])]"

fun patternLoop :: "ChatIntent \<Rightarrow> regex list \<Rightarrow> string \<Rightarrow> IntentClassificationResult option" where
  \<comment> \<open>the inner loop: \<open>Some\<close> is its \<open>return\<close>\<close>
  "patternLoop i [] query = None"
| "patternLoop i (pattern # patterns) query =
     (if test True pattern query
      then Some \<lparr>intent = i, confidence = 8 / 10, entities = extractEntities query\<rparr>
      else patternLoop i patterns query)"

fun intentLoop :: "(ChatIntent \<times> regex list) list \<Rightarrow> string \<Rightarrow> IntentClassificationResult" where
  "intentLoop [] query =
     \<lparr>intent = unknown, confidence = 3 / 10, entities = extractEntities query\<rparr>"
| "intentLoop ((i, patterns) # rest) query =
     (case patternLoop i patterns query of
        Some result \<Rightarrow> result
      | None \<Rightarrow> intentLoop rest query)"

definition classifyIntent :: "string \<Rightarrow> IntentClassificationResult" where
  "classifyIntent query = intentLoop intentPatterns query"

subsection \<open>searchResume\<close>

definition sentenceSeparator :: regex where
  \<comment> \<open>\<open>/[.!?]+/\<close>\<close>
  "sentenceSeparator = Plus (OneOf ''.!?'')"

definition whitespaceRun :: regex where
  \<comment> \<open>\<open>/\s+/\<close>\<close>
  "whitespaceRun = Plus Space"

fun termLoop :: "string \<Rightarrow> string list \<Rightarrow> nat \<Rightarrow> nat" where
  \<comment> \<open>the loop over the query terms: one more for each term the sentence includes\<close>
  "termLoop sentenceLower [] relevance = relevance"
| "termLoop sentenceLower (term # terms) relevance =
     termLoop sentenceLower terms
       (if includesStr sentenceLower term then relevance + 1 else relevance)"

definition undefinedError :: thrown where
  \<comment> \<open>the TypeError of a method call on \<open>undefined\<close>\<close>
  "undefinedError = ErrorInstance ''Cannot read properties of undefined''"

definition arrayAt :: "'a list \<Rightarrow> nat \<Rightarrow> 'a option" where
  \<comment> \<open>\<open>xs[i]\<close>: \<open>undefined\<close> outside the array\<close>
  "arrayAt xs i = (if i < length xs then Some (xs ! i) else None)"

function sentenceLoop ::
  "string list \<Rightarrow> string list \<Rightarrow> nat \<Rightarrow> EvidenceSource list \<Rightarrow> thrown + EvidenceSource list" where
  \<comment> \<open>the loop over \<open>i\<close>; \<open>sentences[i]\<close> outside the array is \<open>undefined\<close>, whose \<open>trim\<close> throws\<close>
  "sentenceLoop sentences queryTerms i evidence =
     (if i < length sentences then
        (case arrayAt sentences i of
           None \<Rightarrow> Inl undefinedError
         | Some s \<Rightarrow>
             (let sentence = trim s;
                  sentenceLower = toLowerCase sentence;
                  relevance = termLoop sentenceLower queryTerms 0
              in sentenceLoop sentences queryTerms (i + 1)
                   (if relevance > 0
                    then evidence @
                      [\<lparr>type = ''resume'', content = sentence,
                        relevanceScore = of_nat relevance / of_nat (length queryTerms),
                        location = ''Sentence '' @ natToString (i + 1)\<rparr>]
                    else evidence)))
      else Inr evidence)"
  by pat_completeness auto
termination
  by (relation "measure (\<lambda>(sentences, queryTerms, i, evidence). length sentences - i)") auto

declare sentenceLoop.simps [simp del]

text \<open>
  \<open>Array.prototype.sort\<close> is stable and its comparator here is consistent, so the result
  is the one stable arrangement; insertion from the right computes it. An element goes
  before the first element that the comparator does not put before it.
\<close>

fun insertBy :: "('a \<Rightarrow> 'a \<Rightarrow> rat) \<Rightarrow> 'a \<Rightarrow> 'a list \<Rightarrow> 'a list" where
  "insertBy cmp x [] = [x]"
| "insertBy cmp x (y # ys) = (if cmp x y \<le> 0 then x # y # ys else y # insertBy cmp x ys)"

definition sortBy :: "('a \<Rightarrow> 'a \<Rightarrow> rat) \<Rightarrow> 'a list \<Rightarrow> 'a list" where
  "sortBy cmp xs = foldr (insertBy cmp) xs []"

definition byRelevance :: "EvidenceSource \<Rightarrow> EvidenceSource \<Rightarrow> rat" where
  \<comment> \<open>\<open>(a, b) => b.relevanceScore - a.relevanceScore\<close>\<close>
  "byRelevance a b = relevanceScore b - relevanceScore a"

definition resumeSentences :: "string \<Rightarrow> string list" where
  \<comment> \<open>\<open>resumeText.split(/[.!?]+/).filter(s => s.trim().length > 0)\<close>\<close>
  "resumeSentences text =
     filter (\<lambda>s. length (trim s) > 0) (split False sentenceSeparator text)"

definition queryTerms :: "string \<Rightarrow> string list" where
  \<comment> \<open>\<open>query.toLowerCase().split(/\s+/)\<close>\<close>
  "queryTerms query = split False whitespaceRun (toLowerCase query)"

definition searchResume :: "string option \<Rightarrow> string \<Rightarrow> thrown + EvidenceSource list" where
  \<comment> \<open>\<open>!resumeText\<close> holds of an absent text and of the empty string\<close>
  "searchResume resumeText query =
     (case resumeText of
        None \<Rightarrow> Inr []
      | Some text \<Rightarrow>
          if text = [] then Inr []
          else
            (case sentenceLoop (resumeSentences text) (queryTerms query) 0 [] of
               Inl e \<Rightarrow> Inl e
             | Inr evidence \<Rightarrow> Inr (take 5 (sortBy byRelevance evidence))))"

subsection \<open>generateResponse\<close>

text \<open>
  Modelled from the spec: \<open>ChatContext\<close> and its evaluation result (section 6 of the
  spec). The fields the spec marks optional are options; an evaluation result always has
  its \<open>scores\<close> with the number \<open>overall\<close>, so the optional chaining
  \<open>scores?.overall\<close> of the source reads that number.
\<close>

record Scores =
  overall :: rat

record EvaluationResult =
  scores :: Scores
  tier :: "string option"
  explanation :: "string option"

record ChatContext =
  candidateName :: "string option"
  resumeText :: "string option"
  jobDescription :: "string option"
  mustHaveAttributes :: "string option"
  evaluationResult :: "EvaluationResult option"

text \<open>
  The request and the answer of \<open>client.chat.completions.create\<close>, as far as the service
  writes and reads them. A message of the request is its role and its content.
\<close>

record CompletionRequest =
  model :: string
  messages :: "(string \<times> string) list"
  temperature :: rat
  top_p :: rat
  max_tokens :: nat

record ResponseMessage =
  messageContent :: "string option"

record Choice =
  message :: "ResponseMessage option"

record Completion =
  choices :: "Choice list"

type_synonym Client = "CompletionRequest \<Rightarrow> thrown + Completion"

text \<open>
  What the service reads from outside: the Azure module, the process environment, the
  module variable \<open>openai\<close> that caches the client, and the constructor of the client.
\<close>

record Env =
  isUsingAzure :: bool
  getAzureOpenAIClient :: "thrown + Client"
  deploymentName :: string
  OPENAI_API_KEY :: "string option"
  openai :: "Client option"
  newOpenAI :: "string \<Rightarrow> thrown + Client"

definition getOpenAIClient :: "Env \<Rightarrow> thrown + (Client \<times> Client option)" where
  \<comment> \<open>the client, and the module variable \<open>openai\<close> after the call\<close>
  "getOpenAIClient env =
     (if isUsingAzure env then
        (case getAzureOpenAIClient env of Inl e \<Rightarrow> Inl e | Inr c \<Rightarrow> Inr (c, openai env))
      else
        (case openai env of
           Some c \<Rightarrow> Inr (c, Some c)
         | None \<Rightarrow>
             (case OPENAI_API_KEY env of
                None \<Rightarrow> Inl (ErrorInstance ''OPENAI_API_KEY environment variable is not set'')
              | Some apiKey \<Rightarrow>
                  if apiKey = []
                  then Inl (ErrorInstance ''OPENAI_API_KEY environment variable is not set'')
                  else (case newOpenAI env apiKey of
                          Inl e \<Rightarrow> Inl e
                        | Inr c \<Rightarrow> Inr (c, Some c)))))"

definition RISEN_SYSTEM_PROMPT :: string where
  \<comment> \<open>the template literal: a line break, then each line with its line break\<close>
  "RISEN_SYSTEM_PROMPT =
     CHR 0x0A # concat (map (\<lambda>l. l @ [CHR 0x0A])
      [''You are a professional HR Copilot AI, assisting a human recruiter during post-evaluation review of candidate resumes.'',
       '''',
       ''ROLE: You act as a context-aware analyst helping HR clarify doubts, explore resume evidence, understand evaluation outcomes, and identify hidden strengths or gaps. You are accurate, transparent, and always grounded in the candidate's actual documents and metadata.'',
       '''',
       ''FORMATTING RULES:'',
       ''- Use clear, professional language without markdown formatting'',
       ''- Never use asterisks for bold or italics'',
       ''- Structure responses with clear paragraphs and proper spacing'',
       ''- Use \"quotation marks\" when quoting from resumes'',
       ''- Create lists with simple dashes or numbers'',
       '''',
       ''INPUTS: You receive candidate information including:'',
       ''- Full parsed resume text'',
       ''- Evaluation results (score 0-100, tier, gaps, summary, qualification status)'',
       ''- Job description and must-have attributes'',
       ''- Semantic similarity scores when available'',
       '''',
       ''RESPONSE GUIDELINES:'',
       ''1. Start with a direct answer to the question'',
       ''2. Provide evidence from the resume when relevant'',
       ''3. Use clear paragraph breaks for readability'',
       ''4. Quote specific sections when referencing the resume'',
       ''5. End with actionable insights when appropriate'',
       '''',
       ''TONE:'',
       ''- Professional yet conversational'',
       ''- Confident but not overly formal'',
       ''- Helpful and constructive'',
       ''- Clear and easy to understand'',
       '''',
       ''EXPECTATIONS:'',
       ''- Be concise, factual, and grounded in resume content'',
       ''- Quote relevant resume sections using quotation marks'',
       ''- Align with scoring system logic'',
       ''- Never fabricate qualifications'',
       ''- When comparing candidates, focus only on requested attributes'',
       ''- Avoid speculation without clear evidence''])"

definition newline :: string where
  "newline = [CHR 0x0A]"

definition contextLines :: "(rat \<Rightarrow> string) \<Rightarrow> ChatContext \<Rightarrow> string list" where
  \<comment> \<open>the array of \<open>contextInfo\<close> before \<open>filter(Boolean)\<close>; a string is truthy when it is
      not empty, an object when it is present, a number when it is not zero\<close>
  "contextLines numberToString context =
     [(case candidateName context of
         None \<Rightarrow> []
       | Some n \<Rightarrow> if n \<noteq> [] then ''Candidate: '' @ n else []),
      (case jobDescription context of
         None \<Rightarrow> []
       | Some d \<Rightarrow> if d \<noteq> [] then ''Job Description: '' @ take 500 d @ ''...'' else []),
      (case mustHaveAttributes context of
         None \<Rightarrow> []
       | Some a \<Rightarrow> if a \<noteq> [] then ''Must-Have Attributes: '' @ a else []),
      (case evaluationResult context of
         None \<Rightarrow> []
       | Some r \<Rightarrow>
           ''Evaluation Score: '' @
             (if overall (scores r) \<noteq> 0 then numberToString (overall (scores r)) else ''N/A'')),
      (case evaluationResult context of
         None \<Rightarrow> []
       | Some r \<Rightarrow>
           (case tier r of
              None \<Rightarrow> []
            | Some t \<Rightarrow> if t \<noteq> [] then ''Tier: '' @ t else [])),
      (case evaluationResult context of
         None \<Rightarrow> []
       | Some r \<Rightarrow>
           (case explanation r of
              None \<Rightarrow> []
            | Some x \<Rightarrow> if x \<noteq> [] then ''Evaluation Summary: '' @ x else []))]"

definition summaryLines :: "(rat \<Rightarrow> string) \<Rightarrow> ChatContext \<Rightarrow> string list" where
  \<comment> \<open>\<open>filter(Boolean)\<close> keeps the strings that are not empty\<close>
  "summaryLines numberToString context =
     filter (\<lambda>l. l \<noteq> []) (contextLines numberToString context)"

definition contextInfo :: "(rat \<Rightarrow> string) \<Rightarrow> ChatContext \<Rightarrow> string" where
  "contextInfo numberToString context = join newline (summaryLines numberToString context)"

definition evidenceText :: "EvidenceSource list \<Rightarrow> string" where
  "evidenceText evidence =
     (if length evidence > 0
      then newline @ ''Relevant Evidence:'' @ newline @
             join newline (map (\<lambda>e. ''- '' @ content e) evidence)
      else newline @ ''No specific evidence found in resume.'')"

fun intentName :: "ChatIntent \<Rightarrow> string" where
  "intentName resume_detail_inquiry = ''resume_detail_inquiry''"
| "intentName evaluation_challenge = ''evaluation_challenge''"
| "intentName candidate_comparison = ''candidate_comparison''"
| "intentName skill_verification = ''skill_verification''"
| "intentName experience_analysis = ''experience_analysis''"
| "intentName ambiguity_check = ''ambiguity_check''"
| "intentName unknown = ''unknown''"

definition userContent ::
  "(rat \<Rightarrow> string) \<Rightarrow> string \<Rightarrow> ChatContext \<Rightarrow> IntentClassificationResult \<Rightarrow> EvidenceSource list \<Rightarrow> string" where
  "userContent numberToString query context i evidence =
     ''Context:'' @ newline @ contextInfo numberToString context @ newline @ newline @
     ''Query: '' @ query @ newline @ newline @
     ''Intent: '' @ intentName (intent i) @
     '' (confidence: '' @ numberToString (confidence i) @ '')'' @
     evidenceText evidence @ newline @ newline @
     ''Please provide a helpful, evidence-based response.''"

definition completionRequest ::
  "(rat \<Rightarrow> string) \<Rightarrow> Env \<Rightarrow> string \<Rightarrow> ChatContext \<Rightarrow> IntentClassificationResult \<Rightarrow>
     EvidenceSource list \<Rightarrow> CompletionRequest" where
  "completionRequest numberToString env query context i evidence =
     \<lparr>model = (if isUsingAzure env then deploymentName env else ''gpt-4o-mini''),
      messages = [(''system'', RISEN_SYSTEM_PROMPT),
                  (''user'', userContent numberToString query context i evidence)],
      temperature = 2 / 10,
      top_p = 90 / 100,
      max_tokens = 4096\<rparr>"

definition apology :: string where
  "apology = ''I apologize, but I cannot provide a response at this time.''"

definition responseOf :: "Completion \<Rightarrow> string" where
  \<comment> \<open>\<open>completion.choices[0]?.message?.content || apology\<close>\<close>
  "responseOf completion =
     (case arrayAt (choices completion) 0 of
        None \<Rightarrow> apology
      | Some choice \<Rightarrow>
          (case message choice of
             None \<Rightarrow> apology
           | Some m \<Rightarrow>
               (case messageContent m of
                  None \<Rightarrow> apology
                | Some c \<Rightarrow> if c \<noteq> [] then c else apology)))"

definition authMessage :: string where
  "authMessage =
     ''Authentication failed. Please check that the OpenAI API key is correctly configured.''"

definition rateLimitMessage :: string where
  "rateLimitMessage = ''Rate limit exceeded. Please wait a moment and try again.''"

definition quotaMessage :: string where
  "quotaMessage = ''OpenAI API quota exceeded. Please check your OpenAI account.''"

definition modelMessage :: string where
  "modelMessage = ''Model access error. The API key may not have access to gpt-4o-mini.''"

definition genericMessage :: string where
  "genericMessage =
     ''I apologize, but I encountered an error while processing your request. Please check the server logs for more details.''"

definition catchBlock :: "thrown \<Rightarrow> string" where
  "catchBlock error =
     (case error of
        ErrorInstance msg \<Rightarrow>
          if includesStr msg ''401'' \<or> includesStr msg ''Incorrect API key'' then authMessage
          else if includesStr msg ''429'' then rateLimitMessage
          else if includesStr msg ''insufficient_quota''
                  \<or> includesStr msg ''exceeded your current quota'' then quotaMessage
          else if includesStr msg ''model'' then modelMessage
          else genericMessage
      | NonError \<Rightarrow> genericMessage)"

definition generateResponse ::
  "(rat \<Rightarrow> string) \<Rightarrow> Env \<Rightarrow> string \<Rightarrow> ChatContext \<Rightarrow> IntentClassificationResult \<Rightarrow>
     EvidenceSource list \<Rightarrow> string" where
  \<comment> \<open>the string the promise resolves to; the development logging writes to the console
      only and is left out\<close>
  "generateResponse numberToString env query context i evidence =
     (case getOpenAIClient env of
        Inl error \<Rightarrow> catchBlock error
      | Inr (client, cache) \<Rightarrow>
          (case client (completionRequest numberToString env query context i evidence) of
             Inl error \<Rightarrow> catchBlock error
           | Inr completion \<Rightarrow> responseOf completion))"

section \<open>Properties of the string operations\<close>

lemma toLowerChar_idem: "toLowerChar (toLowerChar c) = toLowerChar c"
  by (auto simp: toLowerChar_def Let_def)

lemma toLowerCase_idem: "toLowerCase (toLowerCase s) = toLowerCase s"
  by (simp add: toLowerCase_def toLowerChar_idem)




lemma termLoop_count: "termLoop sl terms n = n + length (filter (includesStr sl) terms)"
  by (induction terms arbitrary: n) auto

lemma run_suffix:
  "st' \<in> set (run ic r st) \<Longrightarrow> \<exists>k. remaining st' = drop k (remaining st)"
proof (induction ic r st arbitrary: st' rule: run.induct)
  case (8 ic a b st)
  then obtain m where m: "m \<in> set (run ic a st)" and st': "st' \<in> set (run ic b m)"
    by auto
  from "8.IH"(1)[OF m] "8.IH"(2)[OF m st'] show ?case by (metis drop_drop)
next
  case (10 ic a st)
  from run_Star_mem[OF "10.prems"] show ?case
  proof
    assume "st' = st"
    then have "remaining st' = drop 0 (remaining st)" by simp
    then show ?thesis by blast
  next
    assume "\<exists>m \<in> set (run ic a st).
        length (remaining m) < length (remaining st) \<and> st' \<in> set (run ic (Star a) m)"
    then obtain m where m: "m \<in> set (run ic a st)"
      and lt: "length (remaining m) < length (remaining st)"
      and st': "st' \<in> set (run ic (Star a) m)"
      by blast
    from "10.IH"(1)[OF m] "10.IH"(2)[OF m lt st'] show ?thesis by (metis drop_drop)
  qed
next
  case (9 ic a b st)
  then show ?case by auto
next
  case (11 ic a st)
  then show ?case by auto
next
  case (6 ic st)
  then show ?case by (auto split: if_splits intro: exI[of _ 0])
next
  case (7 ic st)
  then show ?case by (auto intro: exI[of _ 0])
qed (auto simp: charStep_def advance_def split: list.splits if_splits intro: exI[of _ 1])

lemma splitLoop_chars:
  "t \<in> set (splitLoop ic r piece st) \<Longrightarrow> set t \<subseteq> set piece \<union> set (remaining st)"
proof (induction ic r piece st arbitrary: t rule: splitLoop.induct)
  case (1 ic r piece st)
  show ?case
  proof (cases "remaining st")
    case Nil
    with "1.prems" show ?thesis by (subst (asm) splitLoop.simps) simp
  next
    case (Cons c cs)
    note rem = Cons
    show ?thesis
    proof (cases "run ic r st")
      case Nil
      with rem "1.prems" have "t \<in> set (splitLoop ic r (piece @ [c]) (advance st))"
        by (subst (asm) splitLoop.simps) simp
      from "1.IH"(1)[OF rem Nil this] rem show ?thesis by (auto simp: advance_def)
    next
      case (Cons m ms)
      show ?thesis
      proof (cases "piece = [] \<and> \<not> length (remaining m) < length (remaining st)")
        case True
        with rem Cons "1.prems" have "t \<in> set (splitLoop ic r (piece @ [c]) (advance st))"
          by (subst (asm) splitLoop.simps) simp
        from "1.IH"(2)[OF rem Cons True this] rem show ?thesis by (auto simp: advance_def)
      next
        case False
        with rem Cons "1.prems" have "t = piece \<or> t \<in> set (splitLoop ic r [] m)"
          by (subst (asm) splitLoop.simps) auto
        moreover have "m \<in> set (run ic r st)" using Cons by simp
        then obtain k where "remaining m = drop k (remaining st)" using run_suffix by blast
        then have "set (remaining m) \<subseteq> set (remaining st)" by (metis set_drop_subset)
        ultimately show ?thesis using "1.IH"(3)[OF rem Cons False] by auto
      qed
    qed
  qed
qed

lemma split_chars: "t \<in> set (split ic r s) \<Longrightarrow> set t \<subseteq> set s"
  using splitLoop_chars[of t ic r "[]" "startState s"]
  by (auto simp: split_def startState_def split: if_splits)

lemma queryTerms_lower: "t \<in> set (queryTerms q) \<Longrightarrow> toLowerCase t = t"
proof -
  assume "t \<in> set (queryTerms q)"
  then have "set t \<subseteq> set (toLowerCase q)" unfolding queryTerms_def by (rule split_chars)
  then have "\<forall>c \<in> set t. toLowerChar c = c"
    by (auto simp: toLowerCase_def toLowerChar_idem)
  then show ?thesis by (simp add: toLowerCase_def map_idI)
qed


section \<open>The retrieval, as the specification words it\<close>

text \<open>
  The definitions of this section follow the words of the specification, to be compared
  with \<open>searchResume\<close> above: a term occurs in a sentence when it is a substring of it
  up to case; the score of a sentence is the number of terms that occur in it over the
  number of terms; the sentences with a positive score survive, each with its 1-based
  position among the non-empty units.
\<close>

definition occursIgnoringCase :: "string \<Rightarrow> string \<Rightarrow> bool" where
  "occursIgnoringCase t s = includesStr (toLowerCase s) (toLowerCase t)"

definition overlap :: "string list \<Rightarrow> string \<Rightarrow> nat" where
  "overlap terms sentence = length (filter (\<lambda>t. occursIgnoringCase t sentence) terms)"

definition scored :: "string list \<Rightarrow> nat \<Rightarrow> string \<Rightarrow> EvidenceSource" where
  "scored terms n s =
     \<lparr>type = ''resume'', content = trim s,
      relevanceScore = of_nat (overlap terms (trim s)) / of_nat (length terms),
      location = ''Sentence '' @ natToString n\<rparr>"

definition survivors :: "string \<Rightarrow> string \<Rightarrow> EvidenceSource list" where
  "survivors text query =
     filter (\<lambda>e. 0 < relevanceScore e)
       (map (\<lambda>(i, s). scored (queryTerms query) (i + 1) s) (enumerate 0 (resumeSentences text)))"



lemma termLoop_overlap:
  assumes "\<forall>t \<in> set terms. toLowerCase t = t"
  shows "termLoop (toLowerCase s) terms 0 = overlap terms s"
proof -
  have "filter (includesStr (toLowerCase s)) terms = filter (\<lambda>t. occursIgnoringCase t s) terms"
    using assms by (intro filter_cong) (auto simp: occursIgnoringCase_def)
  then show ?thesis by (simp add: termLoop_count overlap_def)
qed

lemma scored_positive:
  "0 < relevanceScore (scored terms n s) \<longleftrightarrow> 0 < overlap terms (trim s)"
proof -
  have "0 < overlap terms (trim s) \<Longrightarrow> 0 < length terms"
    by (cases terms) (auto simp: overlap_def)
  then show ?thesis by (auto simp: scored_def zero_less_divide_iff)
qed

lemma sentenceLoop_eq:
  assumes lower: "\<forall>t \<in> set terms. toLowerCase t = t"
  shows "sentenceLoop sentences terms i ev =
     Inr (ev @ filter (\<lambda>e. 0 < relevanceScore e)
                 (map (\<lambda>(j, s). scored terms (j + 1) s) (enumerate i (drop i sentences))))"
  using lower
proof (induction sentences terms i ev rule: sentenceLoop.induct)
  case (1 sentences queryTerms i evidence)
  show ?case
  proof (cases "i < length sentences")
    case False
    then show ?thesis by (subst sentenceLoop.simps) simp
  next
    case True
    then have at: "arrayAt sentences i = Some (sentences ! i)" by (simp add: arrayAt_def)
    have dr: "drop i sentences = sentences ! i # drop (i + 1) sentences"
      using True by (simp add: Cons_nth_drop_Suc)
    let ?rel = "termLoop (toLowerCase (trim (sentences ! i))) queryTerms 0"
    have rel: "?rel = overlap queryTerms (trim (sentences ! i))"
      using "1.prems" by (rule termLoop_overlap)
    have pos: "0 < ?rel \<longleftrightarrow> 0 < relevanceScore (scored queryTerms (i + 1) (sentences ! i))"
      by (simp only: rel scored_positive)
    have sc: "\<lparr>type = ''resume'', content = trim (sentences ! i),
               relevanceScore = of_nat ?rel / of_nat (length queryTerms),
               location = ''Sentence '' @ natToString (i + 1)\<rparr>
             = scored queryTerms (i + 1) (sentences ! i)"
      by (simp only: rel scored_def)
    note ih = "1.IH"[OF True at refl refl refl "1.prems"]
    have step: "sentenceLoop sentences queryTerms i evidence =
        sentenceLoop sentences queryTerms (i + 1)
          (if 0 < ?rel
           then evidence @
             [\<lparr>type = ''resume'', content = trim (sentences ! i),
               relevanceScore = of_nat ?rel / of_nat (length queryTerms),
               location = ''Sentence '' @ natToString (i + 1)\<rparr>]
           else evidence)"
      by (subst sentenceLoop.simps) (simp add: True at Let_def)
    show ?thesis
      unfolding step ih
      by (subst dr) (use pos sc in auto)
  qed
qed

lemma insertBy_insort:
  "insertBy byRelevance x ys = insort_key (\<lambda>e. - relevanceScore e) x ys"
  by (induction ys) (auto simp: byRelevance_def)

lemma sortBy_sort_key: "sortBy byRelevance xs = sort_key (\<lambda>e. - relevanceScore e) xs"
  by (induction xs) (auto simp: sortBy_def insertBy_insort)

lemma resumeSentences_Nil: "resumeSentences [] = []"
  by (simp add: resumeSentences_def split_def sentenceSeparator_def Plus_def startState_def
      charStep_def trim_def)

lemma searchResume_eq:
  "searchResume (Some text) query = Inr (take 5 (sortBy byRelevance (survivors text query)))"
proof (cases "text = []")
  case True
  then show ?thesis
    by (simp add: searchResume_def survivors_def resumeSentences_Nil sortBy_def)
next
  case False
  have "sentenceLoop (resumeSentences text) (queryTerms query) 0 [] = Inr (survivors text query)"
    using sentenceLoop_eq[of "queryTerms query" "resumeSentences text" 0 "[]"] queryTerms_lower
    by (simp add: survivors_def)
  with False show ?thesis by (simp add: searchResume_def)
qed





subsection \<open>The decimal text of a position\<close>






section \<open>The claims about searchResume\<close>







text \<open>
  C3. For every resume text and query, what \<open>searchResume\<close> returns is the first five
  entries, or all when there are fewer, of an arrangement \<open>ranked\<close> of the surviving
  sentences with these properties: it has the same entries, its scores never increase,
  and the entries of one score stand in it in their original order (the sort is stable, no
  second key). So at most five entries are returned and their scores never increase.
\<close>

theorem searchResume_top5_stable:
  "\<exists>ranked.
      searchResume (Some resume) query = Inr (take 5 ranked)
    \<and> mset ranked = mset (survivors resume query)
    \<and> sorted_wrt (\<lambda>a b. relevanceScore b \<le> relevanceScore a) ranked
    \<and> (\<forall>k. filter (\<lambda>e. relevanceScore e = k) ranked
            = filter (\<lambda>e. relevanceScore e = k) (survivors resume query))
    \<and> length (take 5 ranked) \<le> 5
    \<and> sorted_wrt (\<lambda>a b. relevanceScore b \<le> relevanceScore a) (take 5 ranked)"
proof -
  let ?f = "\<lambda>e. - relevanceScore e"
  let ?ranked = "sort_key ?f (survivors resume query)"
  have eq: "searchResume (Some resume) query = Inr (take 5 ?ranked)"
    by (simp add: searchResume_eq sortBy_sort_key)
  have ms: "mset ?ranked = mset (survivors resume query)" by simp
  have "sorted (map ?f ?ranked)" by (rule sorted_sort_key)
  then have so: "sorted_wrt (\<lambda>a b. relevanceScore b \<le> relevanceScore a) ?ranked"
    by (simp add: sorted_wrt_map)
  have st: "\<forall>k. filter (\<lambda>e. relevanceScore e = k) ?ranked
            = filter (\<lambda>e. relevanceScore e = k) (survivors resume query)"
  proof
    fix k
    have "filter (\<lambda>e. ?f e = - k) ?ranked = filter (\<lambda>e. ?f e = - k) (survivors resume query)"
      by (rule sort_key_stable)
    then show "filter (\<lambda>e. relevanceScore e = k) ?ranked
            = filter (\<lambda>e. relevanceScore e = k) (survivors resume query)"
      by simp
  qed
  from so have so5: "sorted_wrt (\<lambda>a b. relevanceScore b \<le> relevanceScore a) (take 5 ?ranked)"
    by (rule sorted_wrt_take)
  have "length (take 5 ?ranked) \<le> 5" by simp
  with eq ms so st so5 show ?thesis by blast
qed

theorem searchResume_top5_stable_witness:
  "searchResume (Some ''Team lead. Python team. Java. Team spirit'') ''python team'' =
     Inr [\<lparr>type = ''resume'', content = ''Python team'', relevanceScore = 1,
           location = ''Sentence 2''\<rparr>,
          \<lparr>type = ''resume'', content = ''Team lead'', relevanceScore = 1 / 2,
           location = ''Sentence 1''\<rparr>,
          \<lparr>type = ''resume'', content = ''Team spirit'', relevanceScore = 1 / 2,
           location = ''Sentence 4''\<rparr>] \<and>
   (\<exists>ranked.
      searchResume (Some ''Team lead. Python team. Java. Team spirit'') ''python team''
        = Inr (take 5 ranked)
    \<and> mset ranked = mset (survivors ''Team lead. Python team. Java. Team spirit'' ''python team'')
    \<and> sorted_wrt (\<lambda>a b. relevanceScore b \<le> relevanceScore a) ranked
    \<and> (\<forall>k. filter (\<lambda>e. relevanceScore e = k) ranked
            = filter (\<lambda>e. relevanceScore e = k)
                (survivors ''Team lead. Python team. Java. Team spirit'' ''python team''))
    \<and> length (take 5 ranked) \<le> 5
    \<and> sorted_wrt (\<lambda>a b. relevanceScore b \<le> relevanceScore a) (take 5 ranked))"
proof -
  have v: "searchResume (Some ''Team lead. Python team. Java. Team spirit'') ''python team'' =
     Inr [\<lparr>type = ''resume'', content = ''Python team'', relevanceScore = 1,
           location = ''Sentence 2''\<rparr>,
          \<lparr>type = ''resume'', content = ''Team lead'', relevanceScore = 1 / 2,
           location = ''Sentence 1''\<rparr>,
          \<lparr>type = ''resume'', content = ''Team spirit'', relevanceScore = 1 / 2,
           location = ''Sentence 4''\<rparr>]"
    by code_simp
  from v searchResume_top5_stable[of "''Team lead. Python team. Java. Team spirit''" "''python team''"]
  show ?thesis by (intro conjI)
qed



subsection \<open>Blank queries\<close>













section \<open>The claims about classifyIntent\<close>

lemma patternLoop_none:
  "\<forall>p \<in> set ps. \<not> test True p q \<Longrightarrow> patternLoop i ps q = None"
  by (induction ps) auto

lemma patternLoop_some:
  "\<exists>p \<in> set ps. test True p q \<Longrightarrow>
     patternLoop i ps q = Some \<lparr>intent = i, confidence = 8 / 10, entities = extractEntities q\<rparr>"
  by (induction ps) auto

lemma intentLoop_first:
  assumes "k < length table"
    and "\<exists>p \<in> set (snd (table ! k)). test True p q"
    and "\<forall>entry \<in> set (take k table). \<forall>p \<in> set (snd entry). \<not> test True p q"
  shows "intentLoop table q =
     \<lparr>intent = fst (table ! k), confidence = 8 / 10, entities = extractEntities q\<rparr>"
  using assms
proof (induction table arbitrary: k)
  case Nil
  then show ?case by simp
next
  case (Cons entry table)
  obtain i ps where entry: "entry = (i, ps)" by (cases entry)
  show ?case
  proof (cases k)
    case 0
    with Cons.prems entry show ?thesis by (simp add: patternLoop_some)
  next
    case (Suc j)
    with Cons.prems entry have none: "patternLoop i ps q = None"
      by (intro patternLoop_none) auto
    from Suc Cons.prems have "intentLoop table q =
      \<lparr>intent = fst (table ! j), confidence = 8 / 10, entities = extractEntities q\<rparr>"
      by (intro Cons.IH) auto
    with none entry Suc show ?thesis by simp
  qed
qed

lemma intentLoop_none:
  assumes "\<forall>entry \<in> set table. \<forall>p \<in> set (snd entry). \<not> test True p q"
  shows "intentLoop table q =
     \<lparr>intent = unknown, confidence = 3 / 10, entities = extractEntities q\<rparr>"
  using assms
proof (induction table)
  case Nil
  then show ?case by simp
next
  case (Cons entry table)
  obtain i ps where entry: "entry = (i, ps)" by (cases entry)
  with Cons.prems have "patternLoop i ps q = None" by (intro patternLoop_none) auto
  with Cons entry show ?case by simp
qed

text \<open>
  C1. The table lists the intents in the order resume_detail_inquiry,
  evaluation_challenge, candidate_comparison, skill_verification, experience_analysis,
  ambiguity_check, unknown. For every query: when a rule of the entry at position \<open>k\<close>
  matches it (without regard to case) and no rule of an earlier entry does,
  \<open>classifyIntent\<close> returns that entry's intent with confidence 0.8 and the entities of
  the query, whatever the later entries match; when no rule of any entry matches, it
  returns \<open>unknown\<close> with confidence 0.3 and the entities of the query.
\<close>

theorem classifyIntent_first_match:
  "map fst intentPatterns =
     [resume_detail_inquiry, evaluation_challenge, candidate_comparison, skill_verification,
      experience_analysis, ambiguity_check, unknown]
   \<and> (\<forall>k < length intentPatterns.
         (\<exists>p \<in> set (snd (intentPatterns ! k)). test True p query)
         \<and> (\<forall>entry \<in> set (take k intentPatterns). \<forall>p \<in> set (snd entry). \<not> test True p query)
         \<longrightarrow> classifyIntent query =
               \<lparr>intent = fst (intentPatterns ! k), confidence = 8 / 10,
                entities = extractEntities query\<rparr>)
   \<and> ((\<forall>entry \<in> set intentPatterns. \<forall>p \<in> set (snd entry). \<not> test True p query)
         \<longrightarrow> classifyIntent query =
               \<lparr>intent = unknown, confidence = 3 / 10, entities = extractEntities query\<rparr>)"
proof (intro conjI allI impI)
  show "map fst intentPatterns =
     [resume_detail_inquiry, evaluation_challenge, candidate_comparison, skill_verification,
      experience_analysis, ambiguity_check, unknown]"
    by (simp add: intentPatterns_def)
next
  fix k
  assume "k < length intentPatterns"
    and "(\<exists>p \<in> set (snd (intentPatterns ! k)). test True p query)
         \<and> (\<forall>entry \<in> set (take k intentPatterns). \<forall>p \<in> set (snd entry). \<not> test True p query)"
  then show "classifyIntent query =
               \<lparr>intent = fst (intentPatterns ! k), confidence = 8 / 10,
                entities = extractEntities query\<rparr>"
    unfolding classifyIntent_def by (intro intentLoop_first) auto
next
  assume "\<forall>entry \<in> set intentPatterns. \<forall>p \<in> set (snd entry). \<not> test True p query"
  then show "classifyIntent query =
               \<lparr>intent = unknown, confidence = 3 / 10, entities = extractEntities query\<rparr>"
    unfolding classifyIntent_def by (rule intentLoop_none)
qed

theorem classifyIntent_first_match_witness:
  "(\<exists>p \<in> set (snd (intentPatterns ! 1)). test True p ''Why is her score better than his?'') \<and>
   (\<exists>p \<in> set (snd (intentPatterns ! 2)). test True p ''Why is her score better than his?'') \<and>
   fst (intentPatterns ! 2) = candidate_comparison \<and>
   classifyIntent ''Why is her score better than his?'' =
     \<lparr>intent = evaluation_challenge, confidence = 8 / 10,
      entities = extractEntities ''Why is her score better than his?''\<rparr> \<and>
   classifyIntent ''Good morning'' =
     \<lparr>intent = unknown, confidence = 3 / 10, entities = extractEntities ''Good morning''\<rparr>"
proof -
  let ?q = "''Why is her score better than his?''"
  have k: "(1::nat) < length intentPatterns" by (simp add: intentPatterns_def)
  have a: "\<exists>p \<in> set (snd (intentPatterns ! 1)). test True p ?q" by code_simp
  have b: "\<forall>entry \<in> set (take 1 intentPatterns). \<forall>p \<in> set (snd entry). \<not> test True p ?q"
    by code_simp
  have c: "\<exists>p \<in> set (snd (intentPatterns ! 2)). test True p ?q" by code_simp
  have d: "\<forall>entry \<in> set intentPatterns. \<forall>p \<in> set (snd entry). \<not> test True p ''Good morning''"
    by code_simp
  have i1: "fst (intentPatterns ! 1) = evaluation_challenge" by (simp add: intentPatterns_def)
  have i2: "fst (intentPatterns ! 2) = candidate_comparison" by (simp add: intentPatterns_def)
  from classifyIntent_first_match[of ?q] k a b
  have "classifyIntent ?q =
     \<lparr>intent = fst (intentPatterns ! 1), confidence = 8 / 10, entities = extractEntities ?q\<rparr>"
    by blast
  moreover from classifyIntent_first_match[of "''Good morning''"] d
  have "classifyIntent ''Good morning'' =
     \<lparr>intent = unknown, confidence = 3 / 10, entities = extractEntities ''Good morning''\<rparr>"
    by blast
  ultimately show ?thesis using a c i1 i2 by simp
qed

lemma patternLoop_result:
  "patternLoop i ps q = Some r \<Longrightarrow>
     ps \<noteq> [] \<and> r = \<lparr>intent = i, confidence = 8 / 10, entities = extractEntities q\<rparr>"
  by (induction ps) (auto split: if_splits)

lemma intentLoop_result:
  "intentLoop table q = \<lparr>intent = unknown, confidence = 3 / 10, entities = extractEntities q\<rparr>
   \<or> (\<exists>i ps. (i, ps) \<in> set table \<and> ps \<noteq> [] \<and>
         intentLoop table q = \<lparr>intent = i, confidence = 8 / 10, entities = extractEntities q\<rparr>)"
proof (induction table)
  case Nil
  then show ?case by simp
next
  case (Cons entry table)
  obtain i ps where entry: "entry = (i, ps)" by (cases entry)
  show ?case
  proof (cases "patternLoop i ps q")
    case None
    with Cons entry show ?thesis by auto
  next
    case (Some r)
    from patternLoop_result[OF Some] Some entry show ?thesis by auto
  qed
qed

text \<open>
  C8. For every query, \<open>searchResume\<close> of an absent resume text and of the empty text
  is the empty list, returned and not thrown. For every resume text and query
  \<open>searchResume\<close> returns a list: the read \<open>sentences[i]\<close> stays inside the array, so
  the only operation of the loop that could throw never does. \<open>classifyIntent\<close> returns
  for every query: either \<open>unknown\<close> with confidence 0.3, or one of the other intents
  with confidence 0.8. Each loop of the model has its termination proof.
\<close>

theorem searchResume_total:
  "searchResume None query = Inr []
   \<and> searchResume (Some []) query = Inr []
   \<and> (\<exists>evidence. searchResume resume query = Inr evidence)
   \<and> (classifyIntent query =
         \<lparr>intent = unknown, confidence = 3 / 10, entities = extractEntities query\<rparr>
       \<or> (\<exists>i. i \<noteq> unknown \<and> classifyIntent query =
             \<lparr>intent = i, confidence = 8 / 10, entities = extractEntities query\<rparr>))"
proof (intro conjI)
  show "searchResume None query = Inr []" by (simp add: searchResume_def)
  show "searchResume (Some []) query = Inr []" by (simp add: searchResume_def)
  show "\<exists>evidence. searchResume resume query = Inr evidence"
  proof (cases resume)
    case None
    then show ?thesis by (simp add: searchResume_def)
  next
    case (Some body)
    then show ?thesis by (simp add: searchResume_eq)
  qed
  have known: "\<And>i ps. (i, ps) \<in> set intentPatterns \<Longrightarrow> ps \<noteq> [] \<Longrightarrow> i \<noteq> unknown"
    by (auto simp: intentPatterns_def)
  from intentLoop_result[of intentPatterns query] known
  show "classifyIntent query =
         \<lparr>intent = unknown, confidence = 3 / 10, entities = extractEntities query\<rparr>
       \<or> (\<exists>i. i \<noteq> unknown \<and> classifyIntent query =
             \<lparr>intent = i, confidence = 8 / 10, entities = extractEntities query\<rparr>)"
    unfolding classifyIntent_def by blast
qed

theorem searchResume_total_witness:
  "searchResume None ''anything'' = Inr []
   \<and> searchResume (Some []) ''anything'' = Inr []
   \<and> (\<exists>evidence. searchResume (Some ''...'') ''anything'' = Inr evidence)
   \<and> searchResume (Some ''...'') ''anything'' = Inr []
   \<and> classifyIntent [] = \<lparr>intent = unknown, confidence = 3 / 10, entities = extractEntities []\<rparr>"
proof -
  have a: "searchResume (Some ''...'') ''anything'' = Inr []" by code_simp
  have "\<forall>entry \<in> set intentPatterns. \<forall>p \<in> set (snd entry). \<not> test True p []" by code_simp
  then have b: "intentLoop intentPatterns [] =
      \<lparr>intent = unknown, confidence = 3 / 10, entities = extractEntities []\<rparr>"
    by (rule intentLoop_none)
  from searchResume_total[of "''anything''" "Some ''...''"] a b show ?thesis
    by (simp add: classifyIntent_def)
qed

section \<open>The claims about generateResponse\<close>

lemma messages_nonempty:
  "authMessage \<noteq> []" "rateLimitMessage \<noteq> []" "quotaMessage \<noteq> []" "modelMessage \<noteq> []"
  "genericMessage \<noteq> []" "apology \<noteq> []"
  by (simp_all add: authMessage_def rateLimitMessage_def quotaMessage_def modelMessage_def
      genericMessage_def apology_def)

lemma catchBlock_cases:
  "catchBlock error \<in> {authMessage, rateLimitMessage, quotaMessage, modelMessage, genericMessage}"
  by (auto simp: catchBlock_def split: thrown.splits)

lemma catchBlock_nonempty: "catchBlock error \<noteq> []"
  using catchBlock_cases[of error] messages_nonempty by auto

lemma responseOf_nonempty: "responseOf completion \<noteq> []"
  by (auto simp: responseOf_def messages_nonempty split: option.splits)

text \<open>
  What the \<open>try\<close> block of \<open>generateResponse\<close> gets from outside: the error thrown
  while the client is obtained or by its call, or the completion.
\<close>

definition generationOutcome ::
  "(rat \<Rightarrow> string) \<Rightarrow> Env \<Rightarrow> string \<Rightarrow> ChatContext \<Rightarrow> IntentClassificationResult \<Rightarrow>
     EvidenceSource list \<Rightarrow> thrown + Completion" where
  "generationOutcome numberToString env query context i evidence =
     (case getOpenAIClient env of
        Inl error \<Rightarrow> Inl error
      | Inr (client, cache) \<Rightarrow>
          client (completionRequest numberToString env query context i evidence))"

lemma generateResponse_outcome:
  "generateResponse nts env query context i evidence =
     (case generationOutcome nts env query context i evidence of
        Inl error \<Rightarrow> catchBlock error
      | Inr completion \<Rightarrow> responseOf completion)"
  by (simp add: generateResponse_def generationOutcome_def split: sum.splits prod.splits)

text \<open>
  An environment for the examples: the standard client, whose call has a given outcome,
  and a context with no field set.
\<close>

definition exampleContext :: ChatContext where
  "exampleContext =
     \<lparr>candidateName = None, resumeText = None, jobDescription = None,
      mustHaveAttributes = None, evaluationResult = None\<rparr>"

definition exampleIntent :: IntentClassificationResult where
  "exampleIntent = \<lparr>intent = unknown, confidence = 3 / 10, entities = Map.empty\<rparr>"

definition exampleEnv :: "thrown + Completion \<Rightarrow> Env" where
  "exampleEnv outcome =
     \<lparr>isUsingAzure = False, getAzureOpenAIClient = Inl NonError, deploymentName = [],
      OPENAI_API_KEY = Some ''sk-test'', openai = None,
      newOpenAI = (\<lambda>apiKey. Inr (\<lambda>request. outcome))\<rparr>"

lemma exampleEnv_outcome:
  "generationOutcome nts (exampleEnv outcome) query context i evidence = outcome"
  by (simp add: generationOutcome_def getOpenAIClient_def exampleEnv_def)

text \<open>
  C4. Whenever obtaining the client or its call throws, \<open>generateResponse\<close> returns one
  of five fixed sentences and throws nothing. For an \<open>Error\<close> with message \<open>msg\<close> the
  sentence is chosen in this order: \<open>msg\<close> contains 401 or Incorrect API key - the
  credentials sentence; else it contains 429 - the retry-later sentence; else it contains
  insufficient_quota or exceeded your current quota - the quota sentence; else it contains
  model - the model-access sentence; else the generic apology. A thrown value that is not
  an \<open>Error\<close> gets the generic apology.
\<close>

theorem generateResponse_error_mapping:
  assumes "generationOutcome numberToString env query context i evidence = Inl error"
  shows "generateResponse numberToString env query context i evidence
           \<in> {authMessage, rateLimitMessage, quotaMessage, modelMessage, genericMessage}
    \<and> (\<forall>msg. error = ErrorInstance msg \<longrightarrow>
         ((includesStr msg ''401'' \<or> includesStr msg ''Incorrect API key'')
             \<longrightarrow> generateResponse numberToString env query context i evidence = authMessage)
       \<and> (\<not> (includesStr msg ''401'' \<or> includesStr msg ''Incorrect API key'')
            \<and> includesStr msg ''429''
             \<longrightarrow> generateResponse numberToString env query context i evidence = rateLimitMessage)
       \<and> (\<not> (includesStr msg ''401'' \<or> includesStr msg ''Incorrect API key'')
            \<and> \<not> includesStr msg ''429''
            \<and> (includesStr msg ''insufficient_quota''
                 \<or> includesStr msg ''exceeded your current quota'')
             \<longrightarrow> generateResponse numberToString env query context i evidence = quotaMessage)
       \<and> (\<not> (includesStr msg ''401'' \<or> includesStr msg ''Incorrect API key'')
            \<and> \<not> includesStr msg ''429''
            \<and> \<not> (includesStr msg ''insufficient_quota''
                 \<or> includesStr msg ''exceeded your current quota'')
            \<and> includesStr msg ''model''
             \<longrightarrow> generateResponse numberToString env query context i evidence = modelMessage)
       \<and> (\<not> (includesStr msg ''401'' \<or> includesStr msg ''Incorrect API key'')
            \<and> \<not> includesStr msg ''429''
            \<and> \<not> (includesStr msg ''insufficient_quota''
                 \<or> includesStr msg ''exceeded your current quota'')
            \<and> \<not> includesStr msg ''model''
             \<longrightarrow> generateResponse numberToString env query context i evidence = genericMessage))
    \<and> (error = NonError
         \<longrightarrow> generateResponse numberToString env query context i evidence = genericMessage)"
proof -
  have g: "generateResponse numberToString env query context i evidence = catchBlock error"
    using assms by (simp add: generateResponse_outcome)
  show ?thesis
    unfolding g using catchBlock_cases[of error] by (auto simp: catchBlock_def)
qed

theorem generateResponse_error_mapping_witness:
  "generationOutcome (\<lambda>n. ''0.3'') (exampleEnv (Inl (ErrorInstance ''429 Too many requests for model gpt-4o-mini'')))
      ''Is she good?'' exampleContext exampleIntent []
     = Inl (ErrorInstance ''429 Too many requests for model gpt-4o-mini'') \<and>
   includesStr ''429 Too many requests for model gpt-4o-mini'' ''429'' \<and>
   includesStr ''429 Too many requests for model gpt-4o-mini'' ''model'' \<and>
   generateResponse (\<lambda>n. ''0.3'') (exampleEnv (Inl (ErrorInstance ''429 Too many requests for model gpt-4o-mini'')))
      ''Is she good?'' exampleContext exampleIntent []
     = ''Rate limit exceeded. Please wait a moment and try again.''"
proof -
  let ?m = "''429 Too many requests for model gpt-4o-mini''"
  have h: "generationOutcome (\<lambda>n. ''0.3'') (exampleEnv (Inl (ErrorInstance ?m)))
      ''Is she good?'' exampleContext exampleIntent [] = Inl (ErrorInstance ?m)"
    by (rule exampleEnv_outcome)
  have a: "\<not> (includesStr ?m ''401'' \<or> includesStr ?m ''Incorrect API key'')" by code_simp
  have b: "includesStr ?m ''429''" by code_simp
  have c: "includesStr ?m ''model''" by code_simp
  from generateResponse_error_mapping[OF h] a b
  have "generateResponse (\<lambda>n. ''0.3'') (exampleEnv (Inl (ErrorInstance ?m)))
      ''Is she good?'' exampleContext exampleIntent [] = rateLimitMessage"
    by blast
  with h b c show ?thesis by (simp add: rateLimitMessage_def)
qed

text \<open>
  C5. For every input \<open>generateResponse\<close> returns a string that is not empty. When the
  call succeeds and the content of the first choice is a non-empty text, that text is
  returned; when there is no first choice, no message, no content or an empty content,
  the fixed apology is returned; when obtaining the client or the call throws, one of the
  five fixed sentences is returned.
\<close>

theorem generateResponse_nonempty:
  "generateResponse numberToString env query context i evidence \<noteq> []
   \<and> (\<forall>completion. generationOutcome numberToString env query context i evidence = Inr completion \<longrightarrow>
        (\<forall>c. (\<exists>choice rest m. choices completion = choice # rest \<and> message choice = Some m
                  \<and> messageContent m = Some c) \<and> c \<noteq> []
             \<longrightarrow> generateResponse numberToString env query context i evidence = c)
      \<and> ((choices completion = []
           \<or> (\<exists>choice rest. choices completion = choice # rest \<and>
                 (message choice = None
                  \<or> (\<exists>m. message choice = Some m \<and>
                        (messageContent m = None \<or> messageContent m = Some [])))))
             \<longrightarrow> generateResponse numberToString env query context i evidence = apology))
   \<and> (\<forall>error. generationOutcome numberToString env query context i evidence = Inl error \<longrightarrow>
        generateResponse numberToString env query context i evidence
          \<in> {authMessage, rateLimitMessage, quotaMessage, modelMessage, genericMessage})"
proof (intro conjI allI impI)
  show "generateResponse numberToString env query context i evidence \<noteq> []"
    by (simp add: generateResponse_outcome catchBlock_nonempty responseOf_nonempty
        split: sum.splits)
next
  fix completion c
  assume "generationOutcome numberToString env query context i evidence = Inr completion"
    and "(\<exists>choice rest m. choices completion = choice # rest \<and> message choice = Some m
                  \<and> messageContent m = Some c) \<and> c \<noteq> []"
  then show "generateResponse numberToString env query context i evidence = c"
    by (auto simp: generateResponse_outcome responseOf_def arrayAt_def)
next
  fix completion
  assume "generationOutcome numberToString env query context i evidence = Inr completion"
    and "choices completion = []
           \<or> (\<exists>choice rest. choices completion = choice # rest \<and>
                 (message choice = None
                  \<or> (\<exists>m. message choice = Some m \<and>
                        (messageContent m = None \<or> messageContent m = Some []))))"
  then show "generateResponse numberToString env query context i evidence = apology"
    by (auto simp: generateResponse_outcome responseOf_def arrayAt_def)
next
  fix error
  assume "generationOutcome numberToString env query context i evidence = Inl error"
  then show "generateResponse numberToString env query context i evidence
          \<in> {authMessage, rateLimitMessage, quotaMessage, modelMessage, genericMessage}"
    using catchBlock_cases[of error] by (simp add: generateResponse_outcome)
qed

theorem generateResponse_nonempty_witness:
  "generateResponse (\<lambda>n. ''0.3'')
      (exampleEnv (Inr \<lparr>choices = [\<lparr>message = Some \<lparr>messageContent = Some []\<rparr>\<rparr>]\<rparr>))
      ''Is she good?'' exampleContext exampleIntent []
     = ''I apologize, but I cannot provide a response at this time.'' \<and>
   generateResponse (\<lambda>n. ''0.3'')
      (exampleEnv (Inr \<lparr>choices = [\<lparr>message = Some \<lparr>messageContent = Some ''Yes.''\<rparr>\<rparr>]\<rparr>))
      ''Is she good?'' exampleContext exampleIntent []
     = ''Yes.''"
proof -
  let ?e = "\<lparr>choices = [\<lparr>message = Some \<lparr>messageContent = Some []\<rparr>\<rparr>]\<rparr>"
  let ?y = "\<lparr>choices = [\<lparr>message = Some \<lparr>messageContent = Some ''Yes.''\<rparr>\<rparr>]\<rparr>"
  have he: "generationOutcome (\<lambda>n. ''0.3'') (exampleEnv (Inr ?e))
      ''Is she good?'' exampleContext exampleIntent [] = Inr ?e"
    by (rule exampleEnv_outcome)
  have hy: "generationOutcome (\<lambda>n. ''0.3'') (exampleEnv (Inr ?y))
      ''Is she good?'' exampleContext exampleIntent [] = Inr ?y"
    by (rule exampleEnv_outcome)
  from generateResponse_nonempty[of "\<lambda>n. ''0.3''" "exampleEnv (Inr ?e)" "''Is she good?''"
      exampleContext exampleIntent "[]"] he
  have "generateResponse (\<lambda>n. ''0.3'') (exampleEnv (Inr ?e))
      ''Is she good?'' exampleContext exampleIntent [] = apology"
    by simp
  moreover
  from generateResponse_nonempty[of "\<lambda>n. ''0.3''" "exampleEnv (Inr ?y)" "''Is she good?''"
      exampleContext exampleIntent "[]"] hy
  have "generateResponse (\<lambda>n. ''0.3'') (exampleEnv (Inr ?y))
      ''Is she good?'' exampleContext exampleIntent [] = ''Yes.''"
    by simp
  ultimately show ?thesis by (simp add: apology_def)
qed

text \<open>
  The context summary in words, to be compared with \<open>summaryLines\<close> above: a text
  field contributes its line when it is present and not empty, and nothing otherwise;
  the job description contributes its first 500 characters followed by the ellipsis; an
  evaluation result that is present contributes the score line, with \<open>N/A\<close> for a score
  of zero, and the lines of its tier and explanation.
\<close>

definition fieldLine :: "string \<Rightarrow> string option \<Rightarrow> string list" where
  "fieldLine label v =
     (case v of None \<Rightarrow> [] | Some s \<Rightarrow> if s \<noteq> [] then [label @ s] else [])"

definition jobDescriptionLine :: "string option \<Rightarrow> string list" where
  "jobDescriptionLine v =
     (case v of
        None \<Rightarrow> []
      | Some d \<Rightarrow> if d \<noteq> [] then [''Job Description: '' @ take 500 d @ ''...''] else [])"

definition evaluationLines :: "(rat \<Rightarrow> string) \<Rightarrow> EvaluationResult option \<Rightarrow> string list" where
  "evaluationLines numberToString v =
     (case v of
        None \<Rightarrow> []
      | Some r \<Rightarrow>
          [''Evaluation Score: '' @
             (if overall (scores r) \<noteq> 0 then numberToString (overall (scores r)) else ''N/A'')]
          @ fieldLine ''Tier: '' (tier r)
          @ fieldLine ''Evaluation Summary: '' (explanation r))"

lemma keep_field:
  "label \<noteq> [] \<Longrightarrow>
   filter (\<lambda>l. l \<noteq> []) [case v of None \<Rightarrow> [] | Some s \<Rightarrow> if s \<noteq> [] then label @ s else []]
     = fieldLine label v"
  by (cases v) (simp_all add: fieldLine_def)

lemma keep_jobDescription:
  "filter (\<lambda>l. l \<noteq> [])
     [case v of None \<Rightarrow> []
      | Some d \<Rightarrow> if d \<noteq> [] then ''Job Description: '' @ take 500 d @ ''...'' else []]
     = jobDescriptionLine v"
  by (cases v) (simp_all add: jobDescriptionLine_def)

lemma keep_evaluation:
  "filter (\<lambda>l. l \<noteq> [])
     [case v of None \<Rightarrow> []
      | Some r \<Rightarrow> ''Evaluation Score: '' @
          (if overall (scores r) \<noteq> 0 then nts (overall (scores r)) else ''N/A''),
      case v of None \<Rightarrow> []
      | Some r \<Rightarrow> (case tier r of None \<Rightarrow> [] | Some t \<Rightarrow> if t \<noteq> [] then ''Tier: '' @ t else []),
      case v of None \<Rightarrow> []
      | Some r \<Rightarrow> (case explanation r of None \<Rightarrow> []
                    | Some x \<Rightarrow> if x \<noteq> [] then ''Evaluation Summary: '' @ x else [])]
     = evaluationLines nts v"
proof (cases v)
  case None
  then show ?thesis by (simp add: evaluationLines_def)
next
  case (Some r)
  have t: "filter (\<lambda>l. l \<noteq> [])
      [case tier r of None \<Rightarrow> [] | Some t \<Rightarrow> if t \<noteq> [] then ''Tier: '' @ t else []]
      = fieldLine ''Tier: '' (tier r)"
    by (rule keep_field) simp
  have x: "filter (\<lambda>l. l \<noteq> [])
      [case explanation r of None \<Rightarrow> []
       | Some x \<Rightarrow> if x \<noteq> [] then ''Evaluation Summary: '' @ x else []]
      = fieldLine ''Evaluation Summary: '' (explanation r)"
    by (rule keep_field) simp
  have "filter (\<lambda>l. l \<noteq> [])
     ([''Evaluation Score: '' @
          (if overall (scores r) \<noteq> 0 then nts (overall (scores r)) else ''N/A'')]
      @ [case tier r of None \<Rightarrow> [] | Some t \<Rightarrow> if t \<noteq> [] then ''Tier: '' @ t else []]
      @ [case explanation r of None \<Rightarrow> []
         | Some x \<Rightarrow> if x \<noteq> [] then ''Evaluation Summary: '' @ x else []])
     = evaluationLines nts (Some r)"
    unfolding filter_append t x by (simp add: evaluationLines_def)
  with Some show ?thesis by simp
qed

lemma summaryLines_pieces:
  "summaryLines nts context =
     fieldLine ''Candidate: '' (candidateName context)
     @ jobDescriptionLine (jobDescription context)
     @ fieldLine ''Must-Have Attributes: '' (mustHaveAttributes context)
     @ evaluationLines nts (evaluationResult context)"
proof -
  have n: "filter (\<lambda>l. l \<noteq> [])
      [case candidateName context of None \<Rightarrow> []
       | Some n \<Rightarrow> if n \<noteq> [] then ''Candidate: '' @ n else []]
      = fieldLine ''Candidate: '' (candidateName context)"
    by (rule keep_field) simp
  have m: "filter (\<lambda>l. l \<noteq> [])
      [case mustHaveAttributes context of None \<Rightarrow> []
       | Some a \<Rightarrow> if a \<noteq> [] then ''Must-Have Attributes: '' @ a else []]
      = fieldLine ''Must-Have Attributes: '' (mustHaveAttributes context)"
    by (rule keep_field) simp
  have split6: "\<And>a b c d e f :: string. [a, b, c, d, e, f] = [a] @ [b] @ [c] @ [d, e, f]"
    by simp
  show ?thesis
    unfolding summaryLines_def contextLines_def
    by (subst split6) (simp only: filter_append n m keep_jobDescription keep_evaluation)
qed

lemma nonempty_pieces:
  "[] \<notin> set (fieldLine ''Candidate: '' v)" "[] \<notin> set (jobDescriptionLine v)"
  "[] \<notin> set (fieldLine ''Must-Have Attributes: '' v)" "[] \<notin> set (evaluationLines nts w)"
  by (auto simp: fieldLine_def jobDescriptionLine_def evaluationLines_def split: option.splits if_splits)

text \<open>
  C6, as amended. The context summary is the contributed lines, none of them empty, with
  one line break between two lines. A job description that is present and not empty
  contributes the line of its first 500 characters followed by the ellipsis \<open>...\<close>,
  whatever its length, also when it has 500 characters or fewer. A candidate name, job
  description, must-have text, tier or explanation that is absent or empty contributes
  no line. The score line is contributed whenever the evaluation result is present: it
  shows the overall score when that is not zero and \<open>N/A\<close> when it is zero; only an
  absent evaluation result contributes no score line (and no tier or explanation line).
\<close>

theorem contextInfo_summary:
  "summaryLines numberToString context =
        fieldLine ''Candidate: '' (candidateName context)
        @ jobDescriptionLine (jobDescription context)
        @ fieldLine ''Must-Have Attributes: '' (mustHaveAttributes context)
        @ evaluationLines numberToString (evaluationResult context)
   \<and> contextInfo numberToString context =
        (case summaryLines numberToString context of
           [] \<Rightarrow> []
         | l # ls \<Rightarrow> l @ concat (map (\<lambda>z. CHR 0x0A # z) ls))
   \<and> [] \<notin> set (summaryLines numberToString context)
   \<and> (\<forall>d. d \<noteq> [] \<longrightarrow>
         jobDescriptionLine (Some d) = [''Job Description: '' @ take 500 d @ ''...''])
   \<and> jobDescriptionLine None = [] \<and> jobDescriptionLine (Some []) = []
   \<and> (\<forall>label s. s \<noteq> [] \<longrightarrow> fieldLine label (Some s) = [label @ s])
   \<and> (\<forall>label. fieldLine label None = [] \<and> fieldLine label (Some []) = [])
   \<and> evaluationLines numberToString None = []
   \<and> (\<forall>r. evaluationLines numberToString (Some r) =
         [''Evaluation Score: '' @
            (if overall (scores r) = 0 then ''N/A'' else numberToString (overall (scores r)))]
         @ fieldLine ''Tier: '' (tier r) @ fieldLine ''Evaluation Summary: '' (explanation r))"
proof (intro conjI allI impI)
  show "summaryLines numberToString context =
        fieldLine ''Candidate: '' (candidateName context)
        @ jobDescriptionLine (jobDescription context)
        @ fieldLine ''Must-Have Attributes: '' (mustHaveAttributes context)
        @ evaluationLines numberToString (evaluationResult context)"
    by (rule summaryLines_pieces)
  show "contextInfo numberToString context =
        (case summaryLines numberToString context of
           [] \<Rightarrow> []
         | l # ls \<Rightarrow> l @ concat (map (\<lambda>z. CHR 0x0A # z) ls))"
  proof -
    have "(@) [CHR 0x0A] = (#) CHR 0x0A" by (rule ext) simp
    then show ?thesis
      by (cases "summaryLines numberToString context")
         (simp_all add: contextInfo_def join_def newline_def)
  qed
  show "[] \<notin> set (summaryLines numberToString context)"
    by (simp add: summaryLines_def)
  show "jobDescriptionLine None = []" "jobDescriptionLine (Some []) = []"
    by (simp_all add: jobDescriptionLine_def)
  show "evaluationLines numberToString None = []" by (simp add: evaluationLines_def)
next
  fix d :: string assume "d \<noteq> []"
  then show "jobDescriptionLine (Some d) = [''Job Description: '' @ take 500 d @ ''...'']"
    by (simp add: jobDescriptionLine_def)
next
  fix label s :: string assume "s \<noteq> []"
  then show "fieldLine label (Some s) = [label @ s]" by (simp add: fieldLine_def)
next
  fix label show "fieldLine label None = []" "fieldLine label (Some []) = []"
    by (simp_all add: fieldLine_def)
next
  fix r
  show "evaluationLines numberToString (Some r) =
         [''Evaluation Score: '' @
            (if overall (scores r) = 0 then ''N/A'' else numberToString (overall (scores r)))]
         @ fieldLine ''Tier: '' (tier r) @ fieldLine ''Evaluation Summary: '' (explanation r)"
    by (simp add: evaluationLines_def)
qed

definition exampleNumber :: "rat \<Rightarrow> string" where
  \<comment> \<open>a number printer for the examples; it prints the whole numbers below ten thousand\<close>
  "exampleNumber n = natToString (nat (floor n) mod 10000)"

theorem contextInfo_summary_witness:
  "contextInfo exampleNumber
      \<lparr>candidateName = Some ''Ann'', resumeText = None,
       jobDescription = Some ''0123456789'', mustHaveAttributes = Some [],
       evaluationResult =
         Some \<lparr>scores = \<lparr>overall = 85\<rparr>, tier = Some ''Top Tier'', explanation = None\<rparr>\<rparr>
     = ''Candidate: Ann'' @ [CHR 0x0A] @ ''Job Description: 0123456789...'' @ [CHR 0x0A]
       @ ''Evaluation Score: 85'' @ [CHR 0x0A] @ ''Tier: Top Tier'' \<and>
   length (replicate 500 CHR ''x'') = 500 \<and>
   contextInfo exampleNumber (exampleContext\<lparr>jobDescription := Some (replicate 500 CHR ''x'')\<rparr>)
     = ''Job Description: '' @ replicate 500 CHR ''x'' @ ''...'' \<and>
   contextInfo exampleNumber (exampleContext\<lparr>jobDescription := Some (replicate 501 CHR ''x'')\<rparr>)
     = ''Job Description: '' @ replicate 500 CHR ''x'' @ ''...'' \<and>
   contextInfo exampleNumber (exampleContext\<lparr>candidateName := Some [], jobDescription := Some []\<rparr>)
     = []"
proof -
  have ne: "''0123456789'' \<noteq> []" "replicate 500 CHR ''x'' \<noteq> []" "replicate 501 CHR ''x'' \<noteq> []"
    "''Ann'' \<noteq> []" "''Top Tier'' \<noteq> []"
    by simp_all
  have t: "take 500 (replicate 501 CHR ''x'') = replicate 500 CHR ''x''" by simp
  have num: "exampleNumber 85 = ''85''" by code_simp
  note s = contextInfo_summary[of exampleNumber]
  have j: "\<And>d. d \<noteq> [] \<Longrightarrow>
      jobDescriptionLine (Some d) = [''Job Description: '' @ take 500 d @ ''...'']"
    using s[of exampleContext] by blast
  have f: "\<And>label. fieldLine label None = []" "\<And>label. fieldLine label (Some []) = []"
    "\<And>label v. v \<noteq> [] \<Longrightarrow> fieldLine label (Some v) = [label @ v]"
    using s[of exampleContext] by blast+
  have e: "evaluationLines exampleNumber None = []" "jobDescriptionLine (Some []) = []"
    using s[of exampleContext] by blast+
  have ev: "\<And>r. evaluationLines exampleNumber (Some r) =
         [''Evaluation Score: '' @
            (if overall (scores r) = 0 then ''N/A'' else exampleNumber (overall (scores r)))]
         @ fieldLine ''Tier: '' (tier r) @ fieldLine ''Evaluation Summary: '' (explanation r)"
    using s[of exampleContext] by blast
  let ?c = "\<lparr>candidateName = Some ''Ann'', resumeText = None,
       jobDescription = Some ''0123456789'', mustHaveAttributes = Some [],
       evaluationResult =
         Some \<lparr>scores = \<lparr>overall = 85\<rparr>, tier = Some ''Top Tier'', explanation = None\<rparr>\<rparr>"
  have a: "contextInfo exampleNumber ?c
     = ''Candidate: Ann'' @ [CHR 0x0A] @ ''Job Description: 0123456789...'' @ [CHR 0x0A]
       @ ''Evaluation Score: 85'' @ [CHR 0x0A] @ ''Tier: Top Tier''"
    using s[of ?c] j[OF ne(1)] f(1,2) f(3)[OF ne(4)] f(3)[OF ne(5)] ev num
    by simp
  have b: "contextInfo exampleNumber (exampleContext\<lparr>jobDescription := Some (replicate 500 CHR ''x'')\<rparr>)
     = ''Job Description: '' @ replicate 500 CHR ''x'' @ ''...''"
    using s[of "exampleContext\<lparr>jobDescription := Some (replicate 500 CHR ''x'')\<rparr>"] j[OF ne(2)]
      f(1,2) e
    by (simp add: exampleContext_def)
  have c: "contextInfo exampleNumber (exampleContext\<lparr>jobDescription := Some (replicate 501 CHR ''x'')\<rparr>)
     = ''Job Description: '' @ replicate 500 CHR ''x'' @ ''...''"
    using s[of "exampleContext\<lparr>jobDescription := Some (replicate 501 CHR ''x'')\<rparr>"] j[OF ne(3)]
      f(1,2) e t
    by (simp add: exampleContext_def)
  have d: "contextInfo exampleNumber (exampleContext\<lparr>candidateName := Some [], jobDescription := Some []\<rparr>)
     = []"
    using s[of "exampleContext\<lparr>candidateName := Some [], jobDescription := Some []\<rparr>"] f(1,2) e
    by (simp add: exampleContext_def)
  from a b c d show ?thesis by simp
qed

text \<open>
  C6 as the claim words it fails: an overall score of zero is empty for the test the
  source applies to it, and the summary of a context with nothing but that score still
  has a line, the score line with \<open>N/A\<close>.
\<close>

theorem contextInfo_zero_score_counterexample:
  "overall (scores \<lparr>scores = \<lparr>overall = 0\<rparr>, tier = None, explanation = None\<rparr>) = 0
   \<and> summaryLines exampleNumber
        \<lparr>candidateName = None, resumeText = None, jobDescription = None,
         mustHaveAttributes = None,
         evaluationResult = Some \<lparr>scores = \<lparr>overall = 0\<rparr>, tier = None, explanation = None\<rparr>\<rparr>
       = [''Evaluation Score: N/A'']
   \<and> contextInfo exampleNumber
        \<lparr>candidateName = None, resumeText = None, jobDescription = None,
         mustHaveAttributes = None,
         evaluationResult = Some \<lparr>scores = \<lparr>overall = 0\<rparr>, tier = None, explanation = None\<rparr>\<rparr>
       = ''Evaluation Score: N/A''"
  by (simp add: contextInfo_def summaryLines_def contextLines_def join_def)

section \<open>The claim about extractEntities\<close>

lemma extractEntities_example:
  "extractEntities ''5 years of experience in Python and AWS'' ''technologies'' = Some ''Python, AWS''
   \<and> extractEntities ''5 years of experience in Python and AWS'' ''experience_years'' = Some ''5''"
proof -
  have "matchAll True techPattern ''5 years of experience in Python and AWS''
          = Some [''Python'', ''AWS'']"
    by code_simp
  moreover have "matchFirst True experiencePattern ''5 years of experience in Python and AWS''
          = Some (''5 years of experience'', Some ''5'')"
    by code_simp
  ultimately show ?thesis by (simp add: extractEntities_def join_def)
qed

lemma techPattern_cpp_before_word_character:
  "matchAll True techPattern ''She used C++11 and c++'' = Some [''C++'']"
  by code_simp

text \<open>
  C7. The claim: \<open>extractEntities\<close> has the key \<open>technologies\<close> exactly when a term of the
  vocabulary occurs in the query. The term \<open>C++\<close> is in the vocabulary and occurs in the
  query below, and the result has no key at all: the pattern ends in \<open>\b\<close>, and after
  the character \<open>+\<close> there is a word boundary only before a letter, a digit or an
  underscore, so \<open>C++\<close> before a space, a punctuation mark or the end is never matched.
\<close>

theorem extractEntities_cpp_at_failing_input:
  "''C++'' \<in> set techVocabulary
   \<and> includesStr ''Does the candidate know C++?'' ''C++''
   \<and> extractEntities ''Does the candidate know C++?'' = Map.empty"
proof -
  have v: "''C++'' \<in> set techVocabulary" by (simp add: techVocabulary_def)
  have i: "includesStr ''Does the candidate know C++?'' ''C++''" by code_simp
  have t: "matchAll True techPattern ''Does the candidate know C++?'' = None" by code_simp
  have e: "matchFirst True experiencePattern ''Does the candidate know C++?'' = None"
    by code_simp
  from t e have "extractEntities ''Does the candidate know C++?'' = Map.empty"
    by (simp add: extractEntities_def)
  with v i show ?thesis by simp
qed

end
